theory Spec2Isabelle
  imports Main
begin

section \<open>Exceptions\<close>

text \<open>
  The exception objects of \<^verbatim>\<open>main.cpp\<close>, tagged with their dynamic type. An object whose
  dynamic type is exactly \<^verbatim>\<open>std::exception\<close> has no message member of its own; the
  string it carries here is what its \<^verbatim>\<open>what()\<close> returns. \<^verbatim>\<open>CustomResourceException\<close>
  derives from \<^verbatim>\<open>std::runtime_error\<close> and adds \<^verbatim>\<open>nested_ptr_\<close>, a
  \<^verbatim>\<open>shared_ptr<std::exception>\<close> that is either null or owns an object.
\<close>

datatype exception =
    Std_exception string
  | Runtime_error string
  | Invalid_argument string
  | CustomResourceException string "exception option"

fun what :: "exception \<Rightarrow> string" where
  "what (Std_exception w) = w"
| "what (Runtime_error message) = message"
| "what (Invalid_argument message) = message"
| "what (CustomResourceException message nested_ptr) = message"

text \<open>
  \<^verbatim>\<open>std::make_shared<std::exception>(nested)\<close> allocates a new object of static and dynamic
  type \<^verbatim>\<open>std::exception\<close>, copy-constructed from the base subobject of \<^verbatim>\<open>nested\<close>. The
  C++ standard fixes the \<^verbatim>\<open>what()\<close> of that copy only when the original has dynamic type
  \<^verbatim>\<open>std::exception\<close> too (then the two strings are equal); for an original of a derived
  class it is left to the standard library. The library is not part of the repository, so
  its choice is the parameter \<open>sliced_what\<close>: the \<^verbatim>\<open>what()\<close> of the copy, given the
  \<^verbatim>\<open>what()\<close> of the original.
\<close>

fun std_exception_copy :: "(string \<Rightarrow> string) \<Rightarrow> exception \<Rightarrow> exception" where
  "std_exception_copy sliced_what (Std_exception w) = Std_exception w"
| "std_exception_copy sliced_what e = Std_exception (sliced_what (what e))"

text \<open>
  GNU libstdc++ and LLVM libc++ keep the message in \<^verbatim>\<open>std::runtime_error\<close>, not in the base
  class, and \<^verbatim>\<open>std::exception::what()\<close> returns a fixed literal. Microsoft's library keeps
  the message in the base class, and the copy constructor of the base class copies it.
\<close>

definition libstdcxx_sliced_what :: "string \<Rightarrow> string" where
  "libstdcxx_sliced_what m = ''std::exception''"

definition msvc_sliced_what :: "string \<Rightarrow> string" where
  "msvc_sliced_what m = m"

text \<open>The one-argument constructor (line 9): \<^verbatim>\<open>nested_ptr_(nullptr)\<close>.\<close>

definition CustomResourceException1 :: "string \<Rightarrow> exception" where
  "CustomResourceException1 message = CustomResourceException message None"

text \<open>The two-argument constructor (line 12).\<close>

definition CustomResourceException2 ::
  "(string \<Rightarrow> string) \<Rightarrow> string \<Rightarrow> exception \<Rightarrow> exception" where
  "CustomResourceException2 sliced_what message nested_exc =
     CustomResourceException message (Some (std_exception_copy sliced_what nested_exc))"

text \<open>
  \<^verbatim>\<open>nested()\<close> (line 15) is a member of \<^verbatim>\<open>CustomResourceException\<close> only; \<open>None\<close> is the
  null pointer.
\<close>

fun nested :: "exception \<Rightarrow> exception option" where
  "nested (CustomResourceException message nested_ptr) = nested_ptr"
| "nested _ = None"

text \<open>
  \<^verbatim>\<open>demonstrateNestedExceptions\<close> (line 84) always leaves by the \<^verbatim>\<open>throw\<close> of its handler; the
  value is the exception thrown.
\<close>

definition demonstrateNestedExceptions :: "(string \<Rightarrow> string) \<Rightarrow> exception" where
  "demonstrateNestedExceptions sliced_what =
     CustomResourceException2 sliced_what ''Wrapper error'' (Runtime_error ''Original error'')"

text \<open>
  What lines 139 to 142 of \<^verbatim>\<open>main\<close> print for a caught \<^verbatim>\<open>CustomResourceException\<close>.
\<close>

definition report_caught :: "exception \<Rightarrow> string list" where
  "report_caught e =
     (''Main error: '' @ what e @ ''\<newline>'') #
     (case nested e of
        None \<Rightarrow> []
      | Some n \<Rightarrow> [''Nested error: '' @ what n @ ''\<newline>''])"

section \<open>Resource\<close>

text \<open>
  The members \<^verbatim>\<open>name_\<close> and \<^verbatim>\<open>is_open_\<close> (an identifier cannot end in an underscore here).
\<close>

record Resource =
  name :: string
  is_open :: bool

text \<open>
  The two output streams are write-only; the console is the list of the texts written so
  far, each with its stream, oldest first.
\<close>

datatype stream = Cout | Cerr

type_synonym console = "(stream \<times> string) list"

text \<open>
  A member function takes the object and the console and returns how it left (\<open>Inl\<close> the
  exception thrown, \<open>Inr ()\<close> a normal return) with the object and the console as they
  are at that moment.
\<close>

type_synonym 'a outcome = "(exception + 'a) \<times> Resource \<times> console"

text \<open>The constructor (line 26).\<close>

definition Resource_ctor :: "string \<Rightarrow> console \<Rightarrow> Resource \<times> console" where
  "Resource_ctor n out =
     (\<lparr>name = n, is_open = True\<rparr>, out @ [(Cout, ''Resource '' @ n @ '' opened\<newline>'')])"

text \<open>\<^verbatim>\<open>performOperation\<close> (line 58).\<close>

definition performOperation :: "Resource \<Rightarrow> console \<Rightarrow> unit outcome" where
  "performOperation this out =
     (if \<not> is_open this then
        (Inl (CustomResourceException1 (''Resource '' @ name this @ '' is closed'')), this, out)
      else if name this = ''faulty'' then
        (Inl (CustomResourceException1 (''Resource '' @ name this @ '' is faulty'')), this, out)
      else
        (Inr (), this,
         out @ [(Cout, ''Operation performed on resource '' @ name this @ ''\<newline>'')]))"

text \<open>\<^verbatim>\<open>close\<close> (line 68).\<close>

definition close :: "Resource \<Rightarrow> console \<Rightarrow> unit outcome" where
  "close this out =
     (if is_open this then
        let this1 = this\<lparr>is_open := False\<rparr>;
            out1 = out @ [(Cout, ''Resource '' @ name this1 @ '' closed\<newline>'')]
        in if name this1 = ''failing'' then
             (Inl (CustomResourceException1 (''Failed to close resource '' @ name this1)),
              this1, out1)
           else (Inr (), this1, out1)
      else (Inr (), this, out))"

text \<open>
  The destructor (line 31). Its handler takes a \<^verbatim>\<open>CustomResourceException\<close> only; an
  exception of any other class would leave the destructor.
\<close>

fun is_CustomResourceException :: "exception \<Rightarrow> bool" where
  "is_CustomResourceException (CustomResourceException message nested_ptr) = True"
| "is_CustomResourceException _ = False"

definition Resource_dtor :: "Resource \<Rightarrow> console \<Rightarrow> unit outcome" where
  "Resource_dtor this out =
     (case close this out of
        (Inr u, this1, out1) \<Rightarrow> (Inr (), this1, out1)
      | (Inl e, this1, out1) \<Rightarrow>
          if is_CustomResourceException e then
            (Inr (), this1,
             out1 @ [(Cerr, ''Destructor caught exception: '' @ what e @ ''\<newline>'')])
          else (Inl e, this1, out1))"

text \<open>
  The move constructor (line 44) returns the new object and the source as it leaves it.
  \<^verbatim>\<open>std::move(other.name_)\<close> leaves the source string valid but unspecified; \<open>residue\<close> is
  what it holds afterwards (the empty string in the common libraries).
\<close>

definition Resource_move_ctor :: "string \<Rightarrow> Resource \<Rightarrow> Resource \<times> Resource" where
  "Resource_move_ctor residue other =
     (\<lparr>name = name other, is_open = is_open other\<rparr>,
      \<lparr>name = residue, is_open = False\<rparr>)"

text \<open>The spec's three kinds of failure are the three messages of the code.\<close>

definition ResourceClosed :: "string \<Rightarrow> exception" where
  "ResourceClosed n = CustomResourceException (''Resource '' @ n @ '' is closed'') None"

definition ResourceFaulty :: "string \<Rightarrow> exception" where
  "ResourceFaulty n = CustomResourceException (''Resource '' @ n @ '' is faulty'') None"

definition CloseFailed :: "string \<Rightarrow> exception" where
  "CloseFailed n = CustomResourceException (''Failed to close resource '' @ n) None"

text \<open>The texts of the notifications.\<close>

definition closed_note :: "string \<Rightarrow> stream \<times> string" where
  "closed_note n = (Cout, ''Resource '' @ n @ '' closed\<newline>'')"

definition performed_note :: "string \<Rightarrow> stream \<times> string" where
  "performed_note n = (Cout, ''Operation performed on resource '' @ n @ ''\<newline>'')"

section \<open>Objects in memory\<close>

text \<open>
  Move assignment (line 49) compares the addresses of its two operands, so the objects
  live in a store, a map from addresses to the objects alive there. An operation on an
  address with no live object is not a run of the program: the result is \<open>None\<close>.
\<close>

type_synonym addr = nat

type_synonym store = "addr \<rightharpoonup> Resource"

definition move_assign :: "string \<Rightarrow> addr \<Rightarrow> addr \<Rightarrow> store \<Rightarrow> store option" where
  "move_assign residue this other s =
     (case (s this, s other) of
        (Some t, Some o1) \<Rightarrow>
          Some (if this \<noteq> other then
                  s(this \<mapsto> t\<lparr>name := name o1, is_open := is_open o1\<rparr>,
                    other \<mapsto> \<lparr>name = residue, is_open = False\<rparr>)
                else s)
      | _ \<Rightarrow> None)"

text \<open>
  A caller's view: the live objects and the console, and the operations a caller can apply
  to them. \<open>New\<close> and \<open>MoveNew\<close> construct at an address that holds no live object;
  \<open>Delete\<close> ends a lifetime, running the destructor.
\<close>

record world =
  objs :: store
  cons :: console

datatype op =
    New addr string
  | PerformOperation addr
  | Close addr
  | MoveNew addr addr string
  | MoveAssign addr addr string
  | Delete addr

fun step :: "op \<Rightarrow> world \<Rightarrow> ((exception + unit) \<times> world) option" where
  "step (New a n) w =
     (case objs w a of
        Some r \<Rightarrow> None
      | None \<Rightarrow>
          (case Resource_ctor n (cons w) of
             (r, out) \<Rightarrow> Some (Inr (), \<lparr>objs = (objs w)(a \<mapsto> r), cons = out\<rparr>)))"
| "step (PerformOperation a) w =
     (case objs w a of
        None \<Rightarrow> None
      | Some r \<Rightarrow>
          (case performOperation r (cons w) of
             (res, r1, out) \<Rightarrow> Some (res, \<lparr>objs = (objs w)(a \<mapsto> r1), cons = out\<rparr>)))"
| "step (Close a) w =
     (case objs w a of
        None \<Rightarrow> None
      | Some r \<Rightarrow>
          (case close r (cons w) of
             (res, r1, out) \<Rightarrow> Some (res, \<lparr>objs = (objs w)(a \<mapsto> r1), cons = out\<rparr>)))"
| "step (MoveNew a b residue) w =
     (case (objs w a, objs w b) of
        (None, Some o1) \<Rightarrow>
          (case Resource_move_ctor residue o1 of
             (new, o2) \<Rightarrow> Some (Inr (), w\<lparr>objs := (objs w)(a \<mapsto> new, b \<mapsto> o2)\<rparr>))
      | _ \<Rightarrow> None)"
| "step (MoveAssign a b residue) w =
     (case move_assign residue a b (objs w) of
        None \<Rightarrow> None
      | Some s \<Rightarrow> Some (Inr (), w\<lparr>objs := s\<rparr>))"
| "step (Delete a) w =
     (case objs w a of
        None \<Rightarrow> None
      | Some r \<Rightarrow>
          (case Resource_dtor r (cons w) of
             (res, r1, out) \<Rightarrow> Some (res, \<lparr>objs = (objs w)(a := None), cons = out\<rparr>)))"

text \<open>
  A sequence of operations, each in its own \<^verbatim>\<open>try\<close> block: an exception ends the
  operation that threw it, not the sequence.
\<close>

fun run :: "op list \<Rightarrow> world \<Rightarrow> world option" where
  "run [] w = Some w"
| "run (x # xs) w =
     (case step x w of
        None \<Rightarrow> None
      | Some (res, w1) \<Rightarrow> run xs w1)"

definition start :: world where
  "start = \<lparr>objs = Map.empty, cons = []\<rparr>"

text \<open>Whether the object at an address is open, \<open>None\<close> when no object lives there.\<close>

definition open_at :: "addr \<Rightarrow> world \<Rightarrow> bool option" where
  "open_at a w = map_option is_open (objs w a)"


section \<open>The cause of a wrapping exception\<close>

text \<open>
  The cause that a wrapping exception keeps is a copy made as a \<^verbatim>\<open>std::exception\<close>: its
  \<^verbatim>\<open>what()\<close> is whatever the library gives such a copy, for every message of the original.
\<close>

lemma nested_what_any_library:
  "map_option what (nested (CustomResourceException2 sliced_what message (Runtime_error m)))
     = Some (sliced_what m)"
  by (simp add: CustomResourceException2_def)

lemma nested_what_msvc:
  "map_option what (nested (CustomResourceException2 msvc_sliced_what message (Runtime_error m)))
     = Some m"
  by (simp add: CustomResourceException2_def msvc_sliced_what_def)

text \<open>
  C1 (the cause's message is preserved by wrapping). With libstdc++ or libc++ the code does
  not do this: the exception that \<^verbatim>\<open>demonstrateNestedExceptions\<close> throws wraps
  \<^verbatim>\<open>std::runtime_error("Original error")\<close>, and the \<^verbatim>\<open>what()\<close> of its \<^verbatim>\<open>nested()\<close> is the
  literal \<^verbatim>\<open>std::exception\<close>; \<^verbatim>\<open>main\<close> prints that literal as the nested error.
\<close>

theorem nested_what_sliced:
  "map_option what (nested (demonstrateNestedExceptions libstdcxx_sliced_what))
     = Some ''std::exception''
   \<and> report_caught (demonstrateNestedExceptions libstdcxx_sliced_what)
     = [''Main error: Wrapper error\<newline>'', ''Nested error: std::exception\<newline>'']"
  by (simp add: demonstrateNestedExceptions_def CustomResourceException2_def
      libstdcxx_sliced_what_def report_caught_def)

section \<open>Closing\<close>

lemma dtor_closed: "\<not> is_open r \<Longrightarrow> Resource_dtor r out = (Inr (), r, out)"
  by (simp add: Resource_dtor_def close_def)

text \<open>
  C2: the destructor of an open resource returns normally, leaves the resource closed and
  writes exactly one close notification; when the name is \<^verbatim>\<open>failing\<close>, the failure of
  \<^verbatim>\<open>close\<close> is written to \<^verbatim>\<open>std::cerr\<close> after it, and nothing is thrown.
\<close>

theorem dtor_open:
  assumes "is_open r"
  shows "Resource_dtor r out =
     (Inr (), r\<lparr>is_open := False\<rparr>,
      out @ closed_note (name r) #
        (if name r = ''failing''
         then [(Cerr, ''Destructor caught exception: Failed to close resource failing\<newline>'')]
         else []))"
  using assms
  by (simp add: Resource_dtor_def close_def Let_def closed_note_def CustomResourceException1_def)

theorem dtor_open_witness:
  "is_open \<lparr>name = ''failing'', is_open = True\<rparr> \<and>
   Resource_dtor \<lparr>name = ''failing'', is_open = True\<rparr> [] =
     (Inr (), \<lparr>name = ''failing'', is_open = False\<rparr>,
      [(Cout, ''Resource failing closed\<newline>''),
       (Cerr, ''Destructor caught exception: Failed to close resource failing\<newline>'')])"
  using dtor_open [of "\<lparr>name = ''failing'', is_open = True\<rparr>" "[]"]
  by (simp add: closed_note_def)

text \<open>
  C3: \<^verbatim>\<open>close\<close> on an open resource always leaves it closed and writes the close
  notification; it throws \<^verbatim>\<open>CloseFailed\<close> when the name is \<^verbatim>\<open>failing\<close> and returns normally
  for every other name. The resource and the console that come with the exception are
  those at the \<^verbatim>\<open>throw\<close>: the flag is already cleared and the notification already written.
\<close>

theorem close_open:
  assumes "is_open r"
  shows "close r out =
     (if name r = ''failing'' then Inl (CloseFailed ''failing'') else Inr (),
      r\<lparr>is_open := False\<rparr>, out @ [closed_note (name r)])"
  using assms
  by (simp add: close_def Let_def closed_note_def CloseFailed_def CustomResourceException1_def)

theorem close_open_witness:
  "is_open \<lparr>name = ''failing'', is_open = True\<rparr> \<and>
   close \<lparr>name = ''failing'', is_open = True\<rparr> [] =
     (Inl (CustomResourceException ''Failed to close resource failing'' None),
      \<lparr>name = ''failing'', is_open = False\<rparr>, [(Cout, ''Resource failing closed\<newline>'')])"
  using close_open [of "\<lparr>name = ''failing'', is_open = True\<rparr>" "[]"]
  by (simp add: closed_note_def CloseFailed_def)

text \<open>
  C4: \<^verbatim>\<open>close\<close> on a closed resource changes nothing, writes nothing and throws nothing,
  whatever the name; and the resource that any call of \<^verbatim>\<open>close\<close> leaves behind is closed,
  so every later call is such a no-op.
\<close>

theorem close_idempotent:
  "(\<not> is_open r \<longrightarrow> close r out = (Inr (), r, out)) \<and>
   (close r out = (res, r1, out1) \<longrightarrow> \<not> is_open r1 \<and> close r1 out2 = (Inr (), r1, out2))"
  by (auto simp add: close_def Let_def split: if_splits)

theorem close_idempotent_witness:
  "\<not> is_open \<lparr>name = ''failing'', is_open = False\<rparr> \<and>
   close \<lparr>name = ''failing'', is_open = False\<rparr> [] =
     (Inr (), \<lparr>name = ''failing'', is_open = False\<rparr>, []) \<and>
   close \<lparr>name = ''failing'', is_open = True\<rparr> [] =
     (Inl (CloseFailed ''failing''), \<lparr>name = ''failing'', is_open = False\<rparr>,
      [closed_note ''failing'']) \<and>
   close \<lparr>name = ''failing'', is_open = False\<rparr> [closed_note ''failing''] =
     (Inr (), \<lparr>name = ''failing'', is_open = False\<rparr>, [closed_note ''failing''])"
  using close_idempotent [of "\<lparr>name = ''failing'', is_open = False\<rparr>" "[]"]
    close_idempotent [of "\<lparr>name = ''failing'', is_open = True\<rparr>" "[]"
      "Inl (CloseFailed ''failing'')" "\<lparr>name = ''failing'', is_open = False\<rparr>"
      "[closed_note ''failing'']" "[closed_note ''failing'']"]
  by (simp add: close_def Let_def closed_note_def CloseFailed_def CustomResourceException1_def)

section \<open>Operating\<close>

text \<open>
  C5: \<^verbatim>\<open>performOperation\<close> on a closed resource throws \<^verbatim>\<open>ResourceClosed\<close>, whatever the name.
\<close>

theorem perform_closed:
  assumes "\<not> is_open r"
  shows "performOperation r out = (Inl (ResourceClosed (name r)), r, out)"
  using assms by (simp add: performOperation_def ResourceClosed_def CustomResourceException1_def)

theorem perform_closed_witness:
  "\<not> is_open \<lparr>name = ''faulty'', is_open = False\<rparr> \<and>
   performOperation \<lparr>name = ''faulty'', is_open = False\<rparr> [] =
     (Inl (CustomResourceException ''Resource faulty is closed'' None),
      \<lparr>name = ''faulty'', is_open = False\<rparr>, [])"
  using perform_closed [of "\<lparr>name = ''faulty'', is_open = False\<rparr>" "[]"]
  by (simp add: ResourceClosed_def)

text \<open>
  C6: \<^verbatim>\<open>performOperation\<close> on an open resource throws \<^verbatim>\<open>ResourceFaulty\<close> when the name is
  \<^verbatim>\<open>faulty\<close>; for every other name it returns normally, writes the notification that the
  operation was performed, and leaves the resource as it was.
\<close>

theorem perform_open:
  assumes "is_open r"
  shows "performOperation r out =
     (if name r = ''faulty'' then (Inl (ResourceFaulty ''faulty''), r, out)
      else (Inr (), r, out @ [performed_note (name r)]))"
  using assms
  by (simp add: performOperation_def ResourceFaulty_def CustomResourceException1_def
      performed_note_def)

theorem perform_open_witness:
  "is_open \<lparr>name = ''basic'', is_open = True\<rparr> \<and>
   performOperation \<lparr>name = ''basic'', is_open = True\<rparr> [] =
     (Inr (), \<lparr>name = ''basic'', is_open = True\<rparr>,
      [(Cout, ''Operation performed on resource basic\<newline>'')])"
  using perform_open [of "\<lparr>name = ''basic'', is_open = True\<rparr>" "[]"]
  by (simp add: performed_note_def)

text \<open>
  C10: \<^verbatim>\<open>performOperation\<close> leaves the name and the state of the resource as they were,
  however it ends.
\<close>

theorem perform_frame:
  "fst (snd (performOperation r out)) = r \<and>
   name (fst (snd (performOperation r out))) = name r \<and>
   is_open (fst (snd (performOperation r out))) = is_open r"
  by (simp add: performOperation_def)

section \<open>Moving\<close>




text \<open>
  C7: a move gives the destination the name and the state that the source had, so that
  the destructor of the destination does what the destructor of the source would have
  done, and the destructor of the source, as the move leaves it, closes nothing and
  writes nothing. This holds for the move constructor, and for the move assignment of
  one object to another.
\<close>

theorem move_transfers:
  "(case Resource_move_ctor residue other of
      (dst, src) \<Rightarrow>
        name dst = name other \<and> is_open dst = is_open other \<and>
        Resource_dtor dst out = Resource_dtor other out \<and>
        Resource_dtor src out = (Inr (), src, out))
   \<and> (s a = Some t \<and> s b = Some o1 \<and> a \<noteq> b \<longrightarrow>
        (case move_assign residue a b s of
           None \<Rightarrow> False
         | Some s1 \<Rightarrow>
             (case (s1 a, s1 b) of
                (Some dst, Some src) \<Rightarrow>
                  name dst = name o1 \<and> is_open dst = is_open o1 \<and>
                  Resource_dtor dst out = Resource_dtor o1 out \<and>
                  Resource_dtor src out = (Inr (), src, out)
              | _ \<Rightarrow> False)))"
proof (intro conjI impI)
  show "case Resource_move_ctor residue other of
      (dst, src) \<Rightarrow>
        name dst = name other \<and> is_open dst = is_open other \<and>
        Resource_dtor dst out = Resource_dtor other out \<and>
        Resource_dtor src out = (Inr (), src, out)"
  proof -
    have same: "\<lparr>name = name other, is_open = is_open other\<rparr> = other"
      by (cases other) simp
    show ?thesis
      by (simp add: Resource_move_ctor_def dtor_closed same)
  qed
next
  assume h: "s a = Some t \<and> s b = Some o1 \<and> a \<noteq> b"
  have eq: "t\<lparr>name := name o1, is_open := is_open o1\<rparr> = o1"
    by simp
  from h have "move_assign residue a b s =
      Some (s(a \<mapsto> o1, b \<mapsto> \<lparr>name = residue, is_open = False\<rparr>))"
    unfolding move_assign_def by (simp add: eq)
  with h show "case move_assign residue a b s of
           None \<Rightarrow> False
         | Some s1 \<Rightarrow>
             (case (s1 a, s1 b) of
                (Some dst, Some src) \<Rightarrow>
                  name dst = name o1 \<and> is_open dst = is_open o1 \<and>
                  Resource_dtor dst out = Resource_dtor o1 out \<and>
                  Resource_dtor src out = (Inr (), src, out)
              | _ \<Rightarrow> False)"
    by (simp add: dtor_closed)
qed

theorem move_transfers_witness:
  "Resource_move_ctor [] \<lparr>name = ''r1'', is_open = True\<rparr> =
     (\<lparr>name = ''r1'', is_open = True\<rparr>, \<lparr>name = [], is_open = False\<rparr>) \<and>
   Resource_dtor \<lparr>name = [], is_open = False\<rparr> [] = (Inr (), \<lparr>name = [], is_open = False\<rparr>, []) \<and>
   (0::nat) \<noteq> 1 \<and>
   Option.bind (move_assign [] 0 1
      [0 \<mapsto> \<lparr>name = ''old'', is_open = False\<rparr>, 1 \<mapsto> \<lparr>name = ''r1'', is_open = True\<rparr>])
      (\<lambda>s1. s1 0) = Some \<lparr>name = ''r1'', is_open = True\<rparr> \<and>
   Option.bind (move_assign [] 0 1
      [0 \<mapsto> \<lparr>name = ''old'', is_open = False\<rparr>, 1 \<mapsto> \<lparr>name = ''r1'', is_open = True\<rparr>])
      (\<lambda>s1. s1 1) = Some \<lparr>name = [], is_open = False\<rparr>"
  using move_transfers [where residue = "[]" and other = "\<lparr>name = ''r1'', is_open = True\<rparr>"
      and out = "[]"
      and s = "[0 \<mapsto> \<lparr>name = ''old'', is_open = False\<rparr>, 1 \<mapsto> \<lparr>name = ''r1'', is_open = True\<rparr>]"
      and a = 0 and t = "\<lparr>name = ''old'', is_open = False\<rparr>" and b = 1
      and ?o1.0 = "\<lparr>name = ''r1'', is_open = True\<rparr>"]
  by (simp add: Resource_move_ctor_def move_assign_def Resource_dtor_def close_def)

section \<open>The direction of the state\<close>

text \<open>
  C8, as stated, fails: an object that was closed is open again after an open resource is
  move-assigned to it. Object 0 is constructed and closed, object 1 is constructed, and
  object 1 is then move-assigned to object 0.
\<close>

theorem closed_reopens_counterexample:
  "Option.bind (run [New 0 ''a'', Close 0, New 1 ''b''] start) (open_at 0) = Some False \<and>
   Option.bind (run [New 0 ''a'', Close 0, New 1 ''b'', MoveAssign 0 1 []] start) (open_at 0)
     = Some True"
  by (simp add: start_def open_at_def Resource_ctor_def close_def Let_def move_assign_def)

lemma step_perform_open:
  "step (PerformOperation b) w = Some (res, w1) \<Longrightarrow> open_at a w1 = open_at a w"
  by (auto simp add: open_at_def performOperation_def split: option.splits if_splits)

lemma step_close_open:
  "step (Close b) w = Some (res, w1) \<Longrightarrow> open_at a w = Some False \<Longrightarrow>
   open_at a w1 = Some False"
  by (auto simp add: open_at_def close_def Let_def split: option.splits if_splits)

lemma step_new_open:
  "step (New b n) w = Some (res, w1) \<Longrightarrow> open_at a w = Some False \<Longrightarrow>
   open_at a w1 = Some False"
  by (auto simp add: open_at_def Resource_ctor_def split: option.splits if_splits)

lemma step_delete_open:
  "step (Delete b) w = Some (res, w1) \<Longrightarrow> open_at a w = Some False \<Longrightarrow>
   open_at a w1 \<noteq> Some True"
  by (auto simp add: open_at_def split: option.splits prod.splits if_splits)

lemma step_move_new_open:
  "step (MoveNew b c residue) w = Some (res, w1) \<Longrightarrow> open_at a w = Some False \<Longrightarrow>
   open_at a w1 = Some False"
  by (auto simp add: open_at_def Resource_move_ctor_def split: option.splits if_splits)

lemma step_move_assign_open:
  "step (MoveAssign b c residue) w = Some (res, w1) \<Longrightarrow> open_at a w = Some False \<Longrightarrow>
   open_at a w1 = Some True \<Longrightarrow>
   b = a \<and> c \<noteq> a \<and> open_at c w = Some True \<and> open_at c w1 = Some False"
  by (auto simp add: open_at_def move_assign_def split: option.splits if_splits)

text \<open>
  C8, amended: an operation (construction, \<^verbatim>\<open>performOperation\<close>, \<^verbatim>\<open>close\<close>, move
  construction, move assignment, destruction) takes an object from closed to open only
  when it is the move assignment to that object of another object that was open, and that
  other object is closed afterwards. Every other operation leaves a closed object closed.
\<close>

theorem reopen_only_by_move_assign:
  assumes "step x w = Some (res, w1)"
    and "open_at a w = Some False"
    and "open_at a w1 = Some True"
  shows "case x of
           MoveAssign a1 b residue \<Rightarrow>
             a1 = a \<and> b \<noteq> a \<and> open_at b w = Some True \<and> open_at b w1 = Some False
         | _ \<Rightarrow> False"
proof (cases x)
  case (New b n)
  with assms step_new_open [of b n w res w1 a] show ?thesis by simp
next
  case (PerformOperation b)
  with assms step_perform_open [of b w res w1 a] show ?thesis by simp
next
  case (Close b)
  with assms step_close_open [of b w res w1 a] show ?thesis by simp
next
  case (MoveNew b c residue)
  with assms step_move_new_open [of b c residue w res w1 a] show ?thesis by simp
next
  case (MoveAssign b c residue)
  with assms step_move_assign_open [of b c residue w res w1 a] show ?thesis by simp
next
  case (Delete b)
  with assms step_delete_open [of b w res w1 a] show ?thesis by simp
qed

theorem reopen_only_by_move_assign_witness:
  "step (MoveAssign 0 1 [])
     \<lparr>objs = [0 \<mapsto> \<lparr>name = ''a'', is_open = False\<rparr>, 1 \<mapsto> \<lparr>name = ''b'', is_open = True\<rparr>],
      cons = []\<rparr> =
     Some (Inr (),
       \<lparr>objs = [0 \<mapsto> \<lparr>name = ''a'', is_open = False\<rparr>, 1 \<mapsto> \<lparr>name = ''b'', is_open = True\<rparr>]
          (0 \<mapsto> \<lparr>name = ''b'', is_open = True\<rparr>, 1 \<mapsto> \<lparr>name = [], is_open = False\<rparr>),
        cons = []\<rparr>) \<and>
   open_at 0 \<lparr>objs = [0 \<mapsto> \<lparr>name = ''a'', is_open = False\<rparr>, 1 \<mapsto> \<lparr>name = ''b'', is_open = True\<rparr>],
      cons = []\<rparr> = Some False \<and>
   open_at 0
     \<lparr>objs = [0 \<mapsto> \<lparr>name = ''a'', is_open = False\<rparr>, 1 \<mapsto> \<lparr>name = ''b'', is_open = True\<rparr>]
          (0 \<mapsto> \<lparr>name = ''b'', is_open = True\<rparr>, 1 \<mapsto> \<lparr>name = [], is_open = False\<rparr>),
        cons = []\<rparr> = Some True \<and>
   open_at 1 \<lparr>objs = [0 \<mapsto> \<lparr>name = ''a'', is_open = False\<rparr>, 1 \<mapsto> \<lparr>name = ''b'', is_open = True\<rparr>],
      cons = []\<rparr> = Some True \<and>
   open_at 1
     \<lparr>objs = [0 \<mapsto> \<lparr>name = ''a'', is_open = False\<rparr>, 1 \<mapsto> \<lparr>name = ''b'', is_open = True\<rparr>]
          (0 \<mapsto> \<lparr>name = ''b'', is_open = True\<rparr>, 1 \<mapsto> \<lparr>name = [], is_open = False\<rparr>),
        cons = []\<rparr> = Some False"
proof -
  let ?w = "\<lparr>objs = [0 \<mapsto> \<lparr>name = ''a'', is_open = False\<rparr>, 1 \<mapsto> \<lparr>name = ''b'', is_open = True\<rparr>],
      cons = []\<rparr>"
  let ?w1 = "\<lparr>objs = [0 \<mapsto> \<lparr>name = ''a'', is_open = False\<rparr>, 1 \<mapsto> \<lparr>name = ''b'', is_open = True\<rparr>]
          (0 \<mapsto> \<lparr>name = ''b'', is_open = True\<rparr>, 1 \<mapsto> \<lparr>name = [], is_open = False\<rparr>),
        cons = []\<rparr>"
  have s: "step (MoveAssign 0 1 []) ?w = Some (Inr (), ?w1)"
    by (simp add: move_assign_def)
  have c: "open_at 0 ?w = Some False"
    by (simp add: open_at_def)
  have o: "open_at 0 ?w1 = Some True"
    by (simp add: open_at_def)
  from reopen_only_by_move_assign [OF s c o] s c o show ?thesis
    by simp
qed

end
